theory Spec2Isabelle
  imports Main "HOL-Library.Word" "HOL-Library.AList"
begin

section \<open>Data model\<close>

text \<open>
  The development embeds \<^verbatim>\<open>jupyter_collaboration/handlers.py\<close>: the per-connection
  \<^verbatim>\<open>YDocWebSocketHandler\<close> and the \<^verbatim>\<open>DocSessionHandler\<close>. Python objects that are shared
  and mutated (rooms, tasks) live in an explicit store; a handler is passed in and returned.
  Every method returns the exception it raised, if any, together with the state reached.
\<close>

type_synonym byte = "8 word"
type_synonym frame = "byte list"

datatype exn =
    IndexError | KeyError | TypeError | ValueError | AttributeError | AssertionError
  | JSONDecodeError | DecodeError | RoomExists | HTTPError nat

datatype json = JNull | JNum int | JStr string | JObj "(string \<times> json) list"

text \<open>
  The dictionary returned by \<^verbatim>\<open>awareness.get_changes\<close> (ypy-websocket): the participant ids
  added and removed by the update, and the decoded JSON objects of the states it carries.
\<close>

record changes =
  added :: "nat list"
  removed :: "nat list"
  states :: "(string \<times> json) list list"

datatype task_status = Pending | Cancelled | Finished

datatype task_body = Serve nat | CleanRoom nat

record task =
  t_body :: task_body
  t_status :: task_status

record ystore =
  ys_path :: string
  ys_open :: bool

record doc_fields =
  file_format :: string
  file_type :: string
  room_file :: string
  room_ystore :: ystore
  save_delay :: "nat option"
  cleaner :: "nat option"
  ready :: bool
  ydoc :: string

datatype room_variant = DocumentRoom doc_fields | TransientRoom

record yroom =
  room_id :: string
  clients :: "nat list"
  variant :: room_variant

record loader =
  ld_file_id :: string
  number_of_subscriptions :: nat

record fim =
  known_paths :: "string list"
  index_tbl :: "(string \<times> string) list"
  next_id :: nat

datatype log_level = INFO | DEBUG | WARNING | ERROR | CRITICAL

record event =
  ev_level :: log_level
  ev_room :: string
  ev_path :: "string option"
  ev_action :: "string option"
  ev_msg :: "string option"

text \<open>
  The process-wide state: the fields of the \<^verbatim>\<open>JupyterWebsocketServer\<close> singleton
  (\<open>rooms\<close>, \<open>connected_users\<close>, \<open>ypatch_nb\<close>, \<open>background_tasks\<close>), the loader mapping, the
  file-id manager, the module constant \<^verbatim>\<open>SERVER_SESSION\<close>, the events emitted so far, the
  store of Room objects (a reference is an index) and the asyncio tasks created so far.
\<close>

record world =
  rooms :: "(string \<times> nat) list"
  connected_users :: "(nat \<times> json) list"
  ypatch_nb :: nat
  background_tasks :: "nat list"
  file_loaders :: "(string \<times> loader) list"
  file_id_manager :: fim
  SERVER_SESSION :: string
  event_log :: "event list"
  heap :: "yroom list"
  tasks :: "task list"

text \<open>
  One \<^verbatim>\<open>YDocWebSocketHandler\<close>: \<open>hid\<close> is the identity of the object (what
  \<^verbatim>\<open>room.clients == [self]\<close> compares), \<open>h_room\<close> the attribute \<^verbatim>\<open>self.room\<close>
  (\<open>None\<close> while unset or after \<^verbatim>\<open>del self.room\<close>), \<open>query_sessionId\<close> the
  \<^verbatim>\<open>sessionId\<close> query argument of the request, \<open>closed\<close> the code and reason of the
  \<^verbatim>\<open>close\<close> call made on the connection, if any.
\<close>

record handler =
  hid :: nat
  h_room_id :: string
  h_room :: "nat option"
  message_queue :: "frame list"
  cleanup_delay :: "nat option"
  query_sessionId :: "string option"
  closed :: "(nat \<times> string) option"

section \<open>The store\<close>

definition lookup_room :: "world \<Rightarrow> nat \<Rightarrow> yroom option" where
  "lookup_room w r = (if r < length (heap w) then Some (heap w ! r) else None)"

definition update_room :: "world \<Rightarrow> nat \<Rightarrow> yroom \<Rightarrow> world" where
  "update_room w r room = (if r < length (heap w) then w\<lparr>heap := (heap w)[r := room]\<rparr> else w)"

text \<open>\<^verbatim>\<open>task.cancel()\<close>: only a task that has not finished is cancelled.\<close>

definition cancel :: "world \<Rightarrow> nat \<Rightarrow> world" where
  "cancel w t =
     (if t < length (tasks w) \<and> t_status (tasks w ! t) = Pending
      then w\<lparr>tasks := (tasks w)[t := (tasks w ! t)\<lparr>t_status := Cancelled\<rparr>]\<rparr>
      else w)"

text \<open>\<^verbatim>\<open>asyncio.create_task\<close>: the new task is pending; its reference is returned.\<close>

definition create_task :: "world \<Rightarrow> task_body \<Rightarrow> nat \<times> world" where
  "create_task w b =
     (length (tasks w), w\<lparr>tasks := tasks w @ [\<lparr>t_body = b, t_status = Pending\<rparr>]\<rparr>)"

section \<open>The per-connection queue\<close>

text \<open>\<^verbatim>\<open>YMessageType.AWARENESS\<close> of ypy-websocket.\<close>

definition AWARENESS :: byte where
  "AWARENESS = 1"

text \<open>\<^verbatim>\<open>u["user"]["name"]\<close>: subscripting a JSON value by a key.\<close>

fun json_getitem :: "json \<Rightarrow> string \<Rightarrow> exn + json" where
  "json_getitem (JObj kvs) k = (case map_of kvs k of None \<Rightarrow> Inl KeyError | Some v \<Rightarrow> Inr v)"
| "json_getitem _ k = Inl TypeError"

text \<open>
  The loop \<^verbatim>\<open>for i, user in enumerate(added_users)\<close> of \<^verbatim>\<open>on_message\<close>. An exception leaves
  the directory as the earlier iterations made it.
\<close>

fun add_users ::
  "nat \<Rightarrow> nat list \<Rightarrow> (string \<times> json) list list \<Rightarrow> (nat \<times> json) list
     \<Rightarrow> exn option \<times> (nat \<times> json) list" where
  "add_users i [] sts cu = (None, cu)"
| "add_users i (user # rest) sts cu =
     (if i < length sts then
        (case map_of (sts ! i) ''user'' of
           None \<Rightarrow> add_users (Suc i) rest sts cu
         | Some usr \<Rightarrow>
             (case json_getitem usr ''name'' of
                Inl e \<Rightarrow> (Some e, cu)
              | Inr name \<Rightarrow> add_users (Suc i) rest sts (AList.update user name cu)))
      else (Some IndexError, cu))"

text \<open>The loop \<^verbatim>\<open>for user in removed_users\<close>.\<close>

fun remove_users :: "nat list \<Rightarrow> (nat \<times> json) list \<Rightarrow> (nat \<times> json) list" where
  "remove_users [] cu = cu"
| "remove_users (user # rest) cu =
     remove_users rest (if map_of cu user \<noteq> None then AList.delete user cu else cu)"

text \<open>
  \<^verbatim>\<open>on_message\<close>. The argument \<open>chg\<close> is the outcome of the external call
  \<^verbatim>\<open>self.room.awareness.get_changes(message[1:])\<close> for this frame; it is read only when the
  frame is an awareness update.
\<close>

definition on_message ::
  "world \<Rightarrow> handler \<Rightarrow> frame \<Rightarrow> exn + changes \<Rightarrow> exn option \<times> world \<times> handler" where
  "on_message w h message chg =
     (case message of
        [] \<Rightarrow> (Some IndexError, w, h)
      | message_type # payload \<Rightarrow>
          (let enqueue = (\<lambda>w'. (None, w'\<lparr>ypatch_nb := ypatch_nb w' + 1\<rparr>,
                                 h\<lparr>message_queue := message_queue h @ [message]\<rparr>))
           in
           if message_type = AWARENESS then
             (let skip = False in
              case chg of
                Inl e \<Rightarrow> (Some e, w, h)
              | Inr c \<Rightarrow>
                  (case add_users 0 (added c) (states c) (connected_users w) of
                     (Some e, cu) \<Rightarrow> (Some e, w\<lparr>connected_users := cu\<rparr>, h)
                   | (None, cu) \<Rightarrow>
                       (let w' = w\<lparr>connected_users := remove_users (removed c) cu\<rparr>
                        in if skip then (None, w', h) else enqueue w')))
           else enqueue w))"

text \<open>
  \<^verbatim>\<open>__anext__\<close>: \<^verbatim>\<open>await self._message_queue.get()\<close> suspends on an empty queue; a falsy
  entry raises \<^verbatim>\<open>StopAsyncIteration\<close>.
\<close>

datatype anext_result = Suspended | StopAsyncIteration | Yield frame

definition anext :: "handler \<Rightarrow> anext_result \<times> handler" where
  "anext h =
     (case message_queue h of
        [] \<Rightarrow> (Suspended, h)
      | message # rest \<Rightarrow>
          (if message = [] then (StopAsyncIteration, h\<lparr>message_queue := rest\<rparr>)
           else (Yield message, h\<lparr>message_queue := rest\<rparr>)))"

text \<open>
  The loop \<^verbatim>\<open>async for message in websocket\<close> by which the room consumes a connection:
  it calls \<^verbatim>\<open>__anext__\<close> until that does not yield. It returns the frames yielded, why it
  stopped yielding (the queue ran empty, or the end of the stream), and the handler.
\<close>

function async_for :: "handler \<Rightarrow> frame list \<times> anext_result \<times> handler" where
  "async_for h =
     (case anext h of
        (Yield message, h') \<Rightarrow>
          (case async_for h' of (ms, r, h'') \<Rightarrow> (message # ms, r, h''))
      | (r, h') \<Rightarrow> ([], r, h'))"
  by pat_completeness auto
termination
  by (relation "measure (\<lambda>h. length (message_queue h))")
     (auto simp: anext_def split: list.splits if_splits)

section \<open>Collaborators of the handler\<close>

text \<open>
  Modelled from the spec: \<^verbatim>\<open>decode_file_path\<close> of \<^verbatim>\<open>utils.py\<close>, which is not among the sources.
  A document identity is the composite key \<open>(file_format, file_type, file_id)\<close> serialised with
  two separators; the file id is what follows the second one. Fewer than two separators cannot
  be unpacked.
\<close>

fun split_colon :: "string \<Rightarrow> (string \<times> string) option" where
  "split_colon [] = None"
| "split_colon (c # cs) =
     (if c = CHR '':'' then Some ([], cs)
      else (case split_colon cs of None \<Rightarrow> None | Some (a, b) \<Rightarrow> Some (c # a, b)))"

definition decode_file_path :: "string \<Rightarrow> exn + string \<times> string \<times> string" where
  "decode_file_path path =
     (case split_colon path of
        None \<Rightarrow> Inl ValueError
      | Some (format, rest) \<Rightarrow>
          (case split_colon rest of
             None \<Rightarrow> Inl ValueError
           | Some (ftype, file_id) \<Rightarrow> Inr (format, ftype, file_id)))"




definition get_path :: "fim \<Rightarrow> string \<Rightarrow> string option" where
  "get_path fm file_id = map_of (map (\<lambda>(p, i). (i, p)) (index_tbl fm)) file_id"

text \<open>
  \<^verbatim>\<open>_emit\<close>: the event carries the level, the room identity and the resolved path, and the
  action and the message when they are truthy.
\<close>

definition truthy :: "string option \<Rightarrow> string option" where
  "truthy s = (if s = Some [] then None else s)"

definition emit ::
  "world \<Rightarrow> handler \<Rightarrow> log_level \<Rightarrow> string option \<Rightarrow> string option \<Rightarrow> exn option \<times> world" where
  "emit w h level action msg =
     (case decode_file_path (h_room_id h) of
        Inl e \<Rightarrow> (Some e, w)
      | Inr (_, _, file_id) \<Rightarrow>
          (let path = get_path (file_id_manager w) file_id;
               data = \<lparr>ev_level = level, ev_room = h_room_id h, ev_path = path,
                       ev_action = truthy action, ev_msg = truthy msg\<rparr>
           in (None, w\<lparr>event_log := event_log w @ [data]\<rparr>)))"

text \<open>
  Modelled from the spec: the Loader Registry (\<^verbatim>\<open>FileLoaderMapping\<close> of \<^verbatim>\<open>loaders.py\<close>, which
  is not among the sources). Subscripting returns the loader registered under the key and
  creates it, with no subscriber, when there is none; \<^verbatim>\<open>get_loaders_from_file_id\<close> lists the
  loaders that serve a file identity.
\<close>

definition get_loaders_from_file_id :: "(string \<times> loader) list \<Rightarrow> string \<Rightarrow> loader list" where
  "get_loaders_from_file_id fl file_id = filter (\<lambda>l. ld_file_id l = file_id) (map snd fl)"

definition loaders_getitem :: "world \<Rightarrow> string \<Rightarrow> loader \<times> world" where
  "loaders_getitem w key =
     (case map_of (file_loaders w) key of
        Some l \<Rightarrow> (l, w)
      | None \<Rightarrow>
          (let l = \<lparr>ld_file_id = (case decode_file_path key of
                                    Inr (_, _, file_id) \<Rightarrow> file_id | Inl _ \<Rightarrow> key),
                    number_of_subscriptions = 0\<rparr>
           in (l, w\<lparr>file_loaders := file_loaders w @ [(key, l)]\<rparr>)))"

text \<open>
  Modelled from the spec: the Room Registry (\<^verbatim>\<open>JupyterWebsocketServer\<close> of
  \<^verbatim>\<open>websocketserver.py\<close>, which is not among the sources). \<^verbatim>\<open>add_room\<close> fails if an entry for
  the identity exists; \<^verbatim>\<open>delete_room\<close> removes the mapping of the room and is a no-op if it is
  already removed. A Document Room that is destroyed releases its Content Loader
  subscription first; releasing a subscription that the loader does not hold raises
  \<^verbatim>\<open>KeyError\<close>. What destroying a room does to its update-log writer is left out.
\<close>

definition room_exists :: "world \<Rightarrow> string \<Rightarrow> bool" where
  "room_exists w rid = (map_of (rooms w) rid \<noteq> None)"

definition get_room :: "world \<Rightarrow> string \<Rightarrow> nat option" where
  "get_room w rid = map_of (rooms w) rid"

definition add_room :: "world \<Rightarrow> string \<Rightarrow> nat \<Rightarrow> exn option \<times> world" where
  "add_room w rid r =
     (if room_exists w rid then (Some RoomExists, w)
      else (None, w\<lparr>rooms := rooms w @ [(rid, r)]\<rparr>))"

definition unsubscribe :: "string \<Rightarrow> (string \<times> loader) list \<Rightarrow> exn + (string \<times> loader) list" where
  "unsubscribe key fl =
     (case map_of fl key of
        None \<Rightarrow> Inl KeyError
      | Some l \<Rightarrow>
          (if number_of_subscriptions l = 0 then Inl KeyError
           else Inr (map (\<lambda>(k, l'). if k = key
                                    then (k, l'\<lparr>number_of_subscriptions :=
                                                 number_of_subscriptions l' - 1\<rparr>)
                                    else (k, l')) fl)))"

definition delete_room :: "world \<Rightarrow> nat \<Rightarrow> exn option \<times> world" where
  "delete_room w r =
     (if r \<notin> snd ` set (rooms w) then (None, w)
      else
        (let unregister = (\<lambda>w'. w'\<lparr>rooms := filter (\<lambda>(rid, r'). r' \<noteq> r) (rooms w')\<rparr>)
         in case lookup_room w r of
              None \<Rightarrow> (None, unregister w)
            | Some room \<Rightarrow>
                (case variant room of
                   TransientRoom \<Rightarrow> (None, unregister w)
                 | DocumentRoom d \<Rightarrow>
                     (case unsubscribe (room_file d) (file_loaders w) of
                        Inl e \<Rightarrow> (Some e, w)
                      | Inr fl \<Rightarrow> (None, unregister (w\<lparr>file_loaders := fl\<rparr>))))))"

text \<open>
  Modelled from the spec: \<^verbatim>\<open>DocumentRoom.initialize\<close> of \<^verbatim>\<open>rooms.py\<close>, which is not among
  the sources. A room that is not yet live loads its document and subscribes to its loader; a
  live room is left as it is. The argument \<open>loaded\<close> is the document that loading the content
  and replaying the update log produce.
\<close>

definition subscribe :: "string \<Rightarrow> (string \<times> loader) list \<Rightarrow> (string \<times> loader) list" where
  "subscribe key fl =
     map (\<lambda>(k, l). if k = key
                     then (k, l\<lparr>number_of_subscriptions := Suc (number_of_subscriptions l)\<rparr>)
                     else (k, l)) fl"

definition room_initialize :: "world \<Rightarrow> nat \<Rightarrow> string \<Rightarrow> world" where
  "room_initialize w r loaded =
     (case lookup_room w r of
        None \<Rightarrow> w
      | Some room \<Rightarrow>
          (case variant room of
             TransientRoom \<Rightarrow> w
           | DocumentRoom d \<Rightarrow>
               (if ready d then w
                else (update_room w r (room\<lparr>variant := DocumentRoom (d\<lparr>ready := True, ydoc := loaded\<rparr>)\<rparr>))
                       \<lparr>file_loaders := subscribe (room_file d) (file_loaders w)\<rparr>)))"

text \<open>
  The serve coroutine that \<^verbatim>\<open>open\<close> starts belongs to ypy-websocket. Its first step, as
  the spec describes the Transport Adapter, registers the connection as a client of the room
  registered under the handler's \<^verbatim>\<open>path\<close>; a cancelled or finished task does nothing.
\<close>

definition serve_attach :: "world \<Rightarrow> handler \<Rightarrow> nat \<Rightarrow> world" where
  "serve_attach w h t =
     (if t < length (tasks w) \<and> t_status (tasks w ! t) = Pending then
        (case get_room w (h_room_id h) of
           None \<Rightarrow> w
         | Some r \<Rightarrow>
             (case lookup_room w r of
                None \<Rightarrow> w
              | Some room \<Rightarrow> update_room w r (room\<lparr>clients := clients room @ [hid h]\<rparr>)))
      else w)"

text \<open>
  The last step of the serve coroutine, once the iteration over the connection has ended:
  the connection is removed from the clients of its room.
\<close>

definition serve_detach :: "world \<Rightarrow> handler \<Rightarrow> world" where
  "serve_detach w h =
     (case get_room w (h_room_id h) of
        None \<Rightarrow> w
      | Some r \<Rightarrow>
          (case lookup_room w r of
             None \<Rightarrow> w
           | Some room \<Rightarrow>
               update_room w r (room\<lparr>clients := filter (\<lambda>c. c \<noteq> hid h) (clients room)\<rparr>)))"

section \<open>YDocWebSocketHandler\<close>

definition last_segment :: "string \<Rightarrow> string" where
  "last_segment s = rev (takeWhile (\<lambda>c. c \<noteq> CHR ''/'') (rev s))"

text \<open>
  \<^verbatim>\<open>str(path.parent / f".{file_type}:{path.name}.y")\<close> with \<^verbatim>\<open>path = Path(path)\<close>, a POSIX
  path. \<^verbatim>\<open>Path\<close> splits the text at the separators and drops the empty components and the
  components \<^verbatim>\<open>.\<close>; the root is kept (two leading separators exactly stay two). The name is
  the last component, empty when there is none, and the parent drops it.
\<close>

fun split_on :: "char \<Rightarrow> string \<Rightarrow> string list" where
  "split_on c [] = [[]]"
| "split_on c (x # xs) =
     (if x = c then [] # split_on c xs
      else (case split_on c xs of
              [] \<Rightarrow> [[x]]
            | y # ys \<Rightarrow> (x # y) # ys))"

definition path_parts :: "string \<Rightarrow> string list" where
  "path_parts path = filter (\<lambda>c. c \<noteq> [] \<and> c \<noteq> ''.'') (split_on (CHR ''/'') path)"

definition path_root :: "string \<Rightarrow> string" where
  "path_root path =
     (if take 2 path = ''//'' \<and> take 3 path \<noteq> ''///'' then ''//''
      else if take 1 path = ''/'' then ''/''
      else [])"

fun join_parts :: "string list \<Rightarrow> string" where
  "join_parts [] = []"
| "join_parts [c] = c"
| "join_parts (c # cs) = c @ ''/'' @ join_parts cs"

definition updates_file_path :: "string \<Rightarrow> string \<Rightarrow> string" where
  "updates_file_path ftype path =
     (let parts = path_parts path;
          name = (if parts = [] then [] else last parts)
      in path_root path @ join_parts (butlast parts @ [''.'' @ ftype @ '':'' @ name @ ''.y'']))"

definition new_room :: "world \<Rightarrow> yroom \<Rightarrow> nat \<times> world" where
  "new_room w room = (length (heap w), w\<lparr>heap := heap w @ [room]\<rparr>)"

definition conflict_msg :: string where
  "conflict_msg = ''There is another collaborative session accessing the same file.'' @ [CHR 10]
     @ ''The synchronization between rooms is not supported and you might lose some of your changes.''"

text \<open>
  \<^verbatim>\<open>initialize\<close>, run by the constructor of the handler of a new connection. \<open>new_hid\<close> is
  the identity of the handler object and \<open>request_path\<close>, \<open>sessionId\<close> belong to its request.
  The method has no suspension point: it runs to its end before any other handler runs.
\<close>

definition initialize ::
  "world \<Rightarrow> nat \<Rightarrow> string \<Rightarrow> string option \<Rightarrow> nat option \<Rightarrow> nat option
     \<Rightarrow> exn option \<times> world \<times> handler" where
  "initialize w new_hid request_path sessionId document_cleanup_delay document_save_delay =
     (let rid = last_segment request_path;
          h = \<lparr>hid = new_hid, h_room_id = rid, h_room = None, message_queue = [],
               cleanup_delay = document_cleanup_delay, query_sessionId = sessionId,
               closed = None\<rparr>
      in
      if room_exists w rid then (None, w, h\<lparr>h_room := get_room w rid\<rparr>)
      else if 2 \<le> count_list rid (CHR '':'') then
        (case decode_file_path rid of
           Inl e \<Rightarrow> (Some e, w, h)
         | Inr (fformat, ftype, file_id) \<Rightarrow>
             (case (if get_loaders_from_file_id (file_loaders w) file_id \<noteq> []
                    then emit w h WARNING None (Some conflict_msg) else (None, w)) of
                (Some e, w1) \<Rightarrow> (Some e, w1, h)
              | (None, w1) \<Rightarrow>
                  (case loaders_getitem w1 rid of
                     (floader, w2) \<Rightarrow>
                       (case get_path (file_id_manager w2) file_id of
                          None \<Rightarrow> (Some TypeError, w2, h)
                        | Some path \<Rightarrow>
                            (let ys = \<lparr>ys_path = updates_file_path ftype path, ys_open = True\<rparr>;
                                 room = \<lparr>room_id = rid, clients = [],
                                         variant = DocumentRoom
                                           \<lparr>file_format = fformat, file_type = ftype,
                                            room_file = rid, room_ystore = ys,
                                            save_delay = document_save_delay, cleaner = None,
                                            ready = False, ydoc = []\<rparr>\<rparr>
                             in case new_room w2 room of
                                  (r, w3) \<Rightarrow>
                                    (case add_room w3 rid r of
                                       (e, w4) \<Rightarrow> (e, w4, h\<lparr>h_room := Some r\<rparr>)))))))
      else
        (case new_room w \<lparr>room_id = rid, clients = [], variant = TransientRoom\<rparr> of
           (r, w1) \<Rightarrow>
             (case add_room w1 rid r of (e, w2) \<Rightarrow> (e, w2, h\<lparr>h_room := Some r\<rparr>))))"

text \<open>\<^verbatim>\<open>self.close(code, reason)\<close>.\<close>

definition close :: "handler \<Rightarrow> nat \<Rightarrow> string \<Rightarrow> handler" where
  "close h code reason = h\<lparr>closed := Some (code, reason)\<rparr>"

text \<open>
  \<^verbatim>\<open>open\<close>. The serve task is created first. For a Document Room the session is compared,
  the connection is closed on a mismatch, and whatever the comparison gave, the cleaner is
  cancelled, the room initialised and the event emitted.
\<close>

definition open_conn :: "world \<Rightarrow> handler \<Rightarrow> string \<Rightarrow> exn option \<times> world \<times> handler" where
  "open_conn w h loaded =
     (case create_task w (Serve (hid h)) of
        (task, w0) \<Rightarrow>
          (let w1 = w0\<lparr>background_tasks := background_tasks w0 @ [task]\<rparr>
           in case h_room h of
                None \<Rightarrow> (Some AttributeError, w1, h)
              | Some r \<Rightarrow>
                  (case lookup_room w1 r of
                     None \<Rightarrow> (Some AttributeError, w1, h)
                   | Some room \<Rightarrow>
                       (case variant room of
                          TransientRoom \<Rightarrow> (None, w1, h)
                        | DocumentRoom d \<Rightarrow>
                            (let session_id = (case query_sessionId h of
                                                 None \<Rightarrow> [] | Some s \<Rightarrow> s);
                                 h1 = (if SERVER_SESSION w1 \<noteq> session_id
                                       then close h 1003
                                              (''Document session '' @ session_id @ '' expired'')
                                       else h);
                                 w2 = (case cleaner d of
                                         None \<Rightarrow> w1 | Some c \<Rightarrow> cancel w1 c);
                                 w3 = room_initialize w2 r loaded
                             in case emit w3 h1 INFO (Some ''initialize'')
                                       (Some ''New client connected.'') of
                                  (e, w4) \<Rightarrow> (e, w4, h1))))))"

text \<open>\<^verbatim>\<open>on_close\<close>: the end-of-stream entry is queued, then the cleaner is scheduled.\<close>

definition on_close :: "world \<Rightarrow> handler \<Rightarrow> exn option \<times> world \<times> handler" where
  "on_close w h =
     (let h1 = h\<lparr>message_queue := message_queue h @ [[]]\<rparr>
      in case h_room h1 of
           None \<Rightarrow> (Some AttributeError, w, h1)
         | Some r \<Rightarrow>
             (case lookup_room w r of
                None \<Rightarrow> (Some AttributeError, w, h1)
              | Some room \<Rightarrow>
                  (case variant room of
                     TransientRoom \<Rightarrow> (None, w, h1)
                   | DocumentRoom d \<Rightarrow>
                       (if clients room = [hid h1] then
                          (case create_task w (CleanRoom (hid h1)) of
                             (task, w1) \<Rightarrow>
                               (None,
                                update_room w1 r
                                  (room\<lparr>variant := DocumentRoom (d\<lparr>cleaner := Some task\<rparr>)\<rparr>),
                                h1))
                        else (None, w, h1)))))"

text \<open>
  \<^verbatim>\<open>_clean_room\<close>, the body of the cleaner task, with the sleep elided: it is run when the
  grace period has elapsed. The handler has no attribute \<^verbatim>\<open>files\<close>, so the statement
  \<^verbatim>\<open>del self.files[self._room_id]\<close> raises.
\<close>

definition clean_room :: "world \<Rightarrow> handler \<Rightarrow> exn option \<times> world \<times> handler" where
  "clean_room w h =
     (case h_room h of
        None \<Rightarrow> (Some AttributeError, w, h)
      | Some r \<Rightarrow>
          (case lookup_room w r of
             None \<Rightarrow> (Some AttributeError, w, h)
           | Some room \<Rightarrow>
               (case variant room of
                  TransientRoom \<Rightarrow> (Some AssertionError, w, h)
                | DocumentRoom d \<Rightarrow>
                    (case cleanup_delay h of
                       None \<Rightarrow> (None, w, h)
                     | Some delay \<Rightarrow>
                         (case delete_room w r of
                            (Some e, w1) \<Rightarrow> (Some e, w1, h)
                          | (None, w1) \<Rightarrow>
                              (let h1 = h\<lparr>h_room := None\<rparr>
                               in case emit w1 h1 INFO (Some ''clean'')
                                         (Some ''Room deleted.'') of
                                    (Some e, w2) \<Rightarrow> (Some e, w2, h1)
                                  | (None, w2) \<Rightarrow>
                                      (case loaders_getitem w2 (h_room_id h1) of
                                         (floader, w3) \<Rightarrow>
                                           (if number_of_subscriptions floader = 0
                                            then (Some AttributeError, w3, h1)
                                            else (None, w3, h1)))))))))"

text \<open>
  The event loop running the cleaner task \<open>t\<close> of handler \<open>h\<close> once its timer has fired: a
  task that was cancelled, or has finished, runs nothing.
\<close>

definition run_cleaner :: "world \<Rightarrow> handler \<Rightarrow> nat \<Rightarrow> exn option \<times> world \<times> handler" where
  "run_cleaner w h t =
     (if t < length (tasks w) \<and> t_status (tasks w ! t) = Pending then
        (case clean_room w h of
           (e, w1, h1) \<Rightarrow>
             (e, w1\<lparr>tasks := (tasks w1)[t := (tasks w1 ! t)\<lparr>t_status := Finished\<rparr>]\<rparr>, h1))
      else (None, w, h))"

section \<open>DocSessionHandler\<close>


record response =
  status :: nat
  data :: json



section \<open>Runs\<close>

text \<open>
  What happens on one open connection: the transport delivers a frame to \<^verbatim>\<open>on_message\<close>
  (with the outcome of the awareness decoder for it), or the relay loop of the room asks the
  handler for its next message. \<open>relayed\<close> collects what the loop was given.
\<close>

datatype conn_event = Message frame "exn + changes" | Next

record conn =
  c_world :: world
  c_handler :: handler
  relayed :: "frame list"

fun conn_step :: "conn \<Rightarrow> conn_event \<Rightarrow> conn" where
  "conn_step c (Message m chg) =
     (case on_message (c_world c) (c_handler c) m chg of
        (e, w, h) \<Rightarrow> c\<lparr>c_world := w, c_handler := h\<rparr>)"
| "conn_step c Next =
     (case anext (c_handler c) of
        (Yield m, h) \<Rightarrow> c\<lparr>c_handler := h, relayed := relayed c @ [m]\<rparr>
      | (r, h) \<Rightarrow> c\<lparr>c_handler := h\<rparr>)"

text \<open>The frames of a run for which \<^verbatim>\<open>on_message\<close> returned normally, in arrival order.\<close>

fun accepted :: "world \<Rightarrow> handler \<Rightarrow> conn_event list \<Rightarrow> frame list" where
  "accepted w h [] = []"
| "accepted w h (Message m chg # evs) =
     (if fst (on_message w h m chg) = None then m # accepted w h evs else accepted w h evs)"
| "accepted w h (Next # evs) = accepted w h evs"




section \<open>Example states\<close>

definition fim0 :: fim where
  "fim0 = \<lparr>known_paths = [''nb.ipynb''], index_tbl = [(''nb.ipynb'', ''i'')], next_id = 1\<rparr>"

definition world0 :: world where
  "world0 = \<lparr>rooms = [], connected_users = [], ypatch_nb = 0, background_tasks = [],
              file_loaders = [], file_id_manager = fim0, SERVER_SESSION = ''s1'',
              event_log = [], heap = [], tasks = []\<rparr>"

definition doc_id :: string where
  "doc_id = ''json:notebook:i''"

text \<open>A live Document Room with one client, handler \<open>0\<close>, and its loader.\<close>

definition doc_room :: yroom where
  "doc_room = \<lparr>room_id = doc_id, clients = [0],
                variant = DocumentRoom
                  \<lparr>file_format = ''json'', file_type = ''notebook'', room_file = doc_id,
                   room_ystore = \<lparr>ys_path = ''.notebook:nb.ipynb.y'', ys_open = True\<rparr>,
                   save_delay = Some 1, cleaner = None, ready = True, ydoc = ''cells''\<rparr>\<rparr>"

definition doc_world :: world where
  "doc_world = world0\<lparr>rooms := [(doc_id, 0)], heap := [doc_room],
                      file_loaders := [(doc_id, \<lparr>ld_file_id = ''i'', number_of_subscriptions = 1\<rparr>)]\<rparr>"

definition handler0 :: handler where
  "handler0 = \<lparr>hid = 0, h_room_id = doc_id, h_room = Some 0, message_queue = [],
                cleanup_delay = Some 60, query_sessionId = Some ''s1'', closed = None\<rparr>"

text \<open>A second connection to the same room, with the session of an earlier process.\<close>

definition stale_handler :: handler where
  "stale_handler = \<lparr>hid = 1, h_room_id = doc_id, h_room = Some 0, message_queue = [],
                     cleanup_delay = Some 60, query_sessionId = Some ''s0'', closed = None\<rparr>"

text \<open>A Transient Room and a connection to it that supplies no session.\<close>

definition awareness_world :: world where
  "awareness_world = world0\<lparr>rooms := [(''JupyterLab:globalAwareness'', 0)],
     heap := [\<lparr>room_id = ''JupyterLab:globalAwareness'', clients = [], variant = TransientRoom\<rparr>]\<rparr>"

definition awareness_handler :: handler where
  "awareness_handler = \<lparr>hid = 2, h_room_id = ''JupyterLab:globalAwareness'', h_room = Some 0,
     message_queue = [], cleanup_delay = Some 60, query_sessionId = None, closed = None\<rparr>"

text \<open>Frames arriving on a connection while the relay loop asks for messages.\<close>

definition example_events :: "conn_event list" where
  "example_events =
     [Message [0, 5] (Inl DecodeError), Next, Message [] (Inl DecodeError),
      Message [1, 9] (Inl DecodeError),
      Message [1, 2] (Inr \<lparr>added = [7], removed = [],
                          states = [[(''user'', JObj [(''name'', JStr ''ada'')])]]\<rparr>),
      Message [0, 6] (Inl DecodeError)]"





text \<open>The room of \<open>doc_world\<close> once its only client has closed: the cleaner, task \<open>0\<close>, is pending.\<close>

definition closing_room :: yroom where
  "closing_room = \<lparr>room_id = doc_id, clients = [0],
                variant = DocumentRoom
                  \<lparr>file_format = ''json'', file_type = ''notebook'', room_file = doc_id,
                   room_ystore = \<lparr>ys_path = ''.notebook:nb.ipynb.y'', ys_open = True\<rparr>,
                   save_delay = Some 1, cleaner = Some 0, ready = True, ydoc = ''cells''\<rparr>\<rparr>"

definition closing_world :: world where
  "closing_world = doc_world\<lparr>heap := [closing_room],
                             tasks := [\<lparr>t_body = CleanRoom 0, t_status = Pending\<rparr>]\<rparr>"

text \<open>A first connection to the document, carrying the session of an earlier process: its request, and the state its \<^verbatim>\<open>initialize\<close> leaves.\<close>

definition room_url :: string where
  "room_url = ''/api/collaboration/room/json:notebook:i''"

definition fresh_room :: yroom where
  "fresh_room = \<lparr>room_id = doc_id, clients = [],
                variant = DocumentRoom
                  \<lparr>file_format = ''json'', file_type = ''notebook'', room_file = doc_id,
                   room_ystore = \<lparr>ys_path = ''.notebook:nb.ipynb.y'', ys_open = True\<rparr>,
                   save_delay = Some 1, cleaner = None, ready = False, ydoc = []\<rparr>\<rparr>"

definition fresh_world :: world where
  "fresh_world = world0\<lparr>rooms := [(doc_id, 0)], heap := [fresh_room],
                        file_loaders := [(doc_id, \<lparr>ld_file_id = ''i'', number_of_subscriptions = 0\<rparr>)]\<rparr>"

definition room_deleted :: event where
  "room_deleted = \<lparr>ev_level = INFO, ev_room = doc_id, ev_path = Some ''nb.ipynb'',
                    ev_action = Some ''clean'', ev_msg = Some ''Room deleted.''\<rparr>"



definition conflict_world :: world where
  "conflict_world = world0\<lparr>file_loaders :=
     [(''text:file:i'', \<lparr>ld_file_id = ''i'', number_of_subscriptions = 1\<rparr>)]\<rparr>"

definition conflict_warning :: event where
  "conflict_warning = \<lparr>ev_level = WARNING, ev_room = doc_id, ev_path = Some ''nb.ipynb'',
                        ev_action = None, ev_msg = Some conflict_msg\<rparr>"

text \<open>
  The state reached when the only connection to a new Document Room has opened, been served,
  closed and been detached by its serve task: the room is ready and has no client, its loader
  has the one subscription of the room, and the cleaner, task \<open>1\<close>, is pending.
\<close>

definition client_joined :: event where
  "client_joined = \<lparr>ev_level = INFO, ev_room = doc_id, ev_path = Some ''nb.ipynb'',
                     ev_action = Some ''initialize'', ev_msg = Some ''New client connected.''\<rparr>"

definition lapsed_room :: yroom where
  "lapsed_room = \<lparr>room_id = doc_id, clients = [],
                variant = DocumentRoom
                  \<lparr>file_format = ''json'', file_type = ''notebook'', room_file = doc_id,
                   room_ystore = \<lparr>ys_path = ''.notebook:nb.ipynb.y'', ys_open = True\<rparr>,
                   save_delay = Some 1, cleaner = Some 1, ready = True, ydoc = ''cells''\<rparr>\<rparr>"

definition lapsed_world :: world where
  "lapsed_world = doc_world\<lparr>heap := [lapsed_room], background_tasks := [0],
     event_log := [client_joined],
     tasks := [\<lparr>t_body = Serve 0, t_status = Pending\<rparr>,
               \<lparr>t_body = CleanRoom 0, t_status = Pending\<rparr>]\<rparr>"

definition lapsed_handler :: handler where
  "lapsed_handler = handler0\<lparr>message_queue := [[]]\<rparr>"





section \<open>Properties of the per-connection queue\<close>


lemma on_message_nil: "on_message w h [] chg = (Some IndexError, w, h)"
  by (simp add: on_message_def)

lemma on_message_other:
  "b \<noteq> AWARENESS \<Longrightarrow>
     on_message w h (b # bs) chg =
       (None, w\<lparr>ypatch_nb := ypatch_nb w + 1\<rparr>,
        h\<lparr>message_queue := message_queue h @ [b # bs]\<rparr>)"
  by (simp add: on_message_def)

lemma on_message_undecoded:
  "on_message w h (AWARENESS # bs) (Inl e) = (Some e, w, h)"
  by (simp add: on_message_def)

lemma on_message_awareness:
  "on_message w h (AWARENESS # bs) (Inr c) =
     (case add_users 0 (added c) (states c) (connected_users w) of
        (Some e, cu) \<Rightarrow> (Some e, w\<lparr>connected_users := cu\<rparr>, h)
      | (None, cu) \<Rightarrow>
          (None, w\<lparr>connected_users := remove_users (removed c) cu,
                    ypatch_nb := ypatch_nb w + 1\<rparr>,
           h\<lparr>message_queue := message_queue h @ [AWARENESS # bs]\<rparr>))"
  by (simp add: on_message_def split: prod.splits option.splits)

lemma add_users_raises_indep:
  "fst (add_users i us sts cu) = fst (add_users i us sts cu')"
proof (induction us arbitrary: i cu cu')
  case Nil
  show ?case by simp
next
  case (Cons u us)
  show ?case
  proof (cases "i < length sts")
    case False
    then show ?thesis by simp
  next
    case True
    show ?thesis
    proof (cases "map_of (sts ! i) ''user''")
      case None
      with True show ?thesis using Cons.IH[of "Suc i" cu cu'] by simp
    next
      case (Some usr)
      show ?thesis
      proof (cases "json_getitem usr ''name''")
        case (Inl e)
        with True Some show ?thesis by simp
      next
        case (Inr name)
        with True Some show ?thesis
          using Cons.IH[of "Suc i" "AList.update u name cu" "AList.update u name cu'"] by simp
      qed
    qed
  qed
qed

lemma on_message_raises_indep:
  "fst (on_message w h m chg) = fst (on_message w' h' m chg)"
proof (cases m)
  case Nil
  then show ?thesis by (simp add: on_message_nil)
next
  case (Cons b bs)
  show ?thesis
  proof (cases "b = AWARENESS")
    case False
    with Cons show ?thesis by (simp add: on_message_other)
  next
    case True
    show ?thesis
    proof (cases chg)
      case (Inl e)
      with Cons True show ?thesis by (simp add: on_message_undecoded)
    next
      case (Inr c)
      obtain e1 cu1 where a1: "add_users 0 (added c) (states c) (connected_users w) = (e1, cu1)"
        by (cases "add_users 0 (added c) (states c) (connected_users w)") auto
      obtain e2 cu2 where a2: "add_users 0 (added c) (states c) (connected_users w') = (e2, cu2)"
        by (cases "add_users 0 (added c) (states c) (connected_users w')") auto
      have "e1 = e2"
        using add_users_raises_indep[of 0 "added c" "states c" "connected_users w" "connected_users w'"]
          a1 a2 by simp
      with Cons True Inr a1 a2 show ?thesis
        by (cases e2) (simp_all add: on_message_awareness)
    qed
  qed
qed

lemma on_message_queue:
  assumes "on_message w h m chg = (e, w', h')"
  shows "(e = None \<longrightarrow> m \<noteq> [] \<and> h' = h\<lparr>message_queue := message_queue h @ [m]\<rparr>) \<and>
         (e \<noteq> None \<longrightarrow> h' = h)"
proof (cases m)
  case Nil
  with assms show ?thesis by (auto simp add: on_message_nil)
next
  case (Cons b bs)
  show ?thesis
  proof (cases "b = AWARENESS")
    case False
    with Cons assms show ?thesis by (auto simp add: on_message_other)
  next
    case True
    show ?thesis
    proof (cases chg)
      case (Inl x)
      with Cons True assms show ?thesis by (auto simp add: on_message_undecoded)
    next
      case (Inr c)
      obtain e1 cu1 where a1: "add_users 0 (added c) (states c) (connected_users w) = (e1, cu1)"
        by (cases "add_users 0 (added c) (states c) (connected_users w)") auto
      with Cons True Inr assms show ?thesis
        by (cases e1) (auto simp add: on_message_awareness)
    qed
  qed
qed

lemma anext_empty: "message_queue h = [] \<Longrightarrow> anext h = (Suspended, h)"
  by (simp add: anext_def)

lemma anext_sentinel:
  "message_queue h = [] # rest \<Longrightarrow> anext h = (StopAsyncIteration, h\<lparr>message_queue := rest\<rparr>)"
  by (simp add: anext_def)

lemma anext_yield:
  "message_queue h = m # rest \<Longrightarrow> m \<noteq> [] \<Longrightarrow>
     anext h = (Yield m, h\<lparr>message_queue := rest\<rparr>)"
  by (simp add: anext_def)

lemma async_for_sentinel:
  "[] \<notin> set q \<Longrightarrow> message_queue h = q @ [] # rest \<Longrightarrow>
     async_for h = (q, StopAsyncIteration, h\<lparr>message_queue := rest\<rparr>)"
proof (induction q arbitrary: h)
  case Nil
  then have "anext h = (StopAsyncIteration, h\<lparr>message_queue := rest\<rparr>)"
    by (simp add: anext_sentinel)
  then show ?case by (subst async_for.simps) simp
next
  case (Cons m q)
  from Cons.prems have m: "m \<noteq> []" and q: "[] \<notin> set q" by auto
  let ?h = "h\<lparr>message_queue := q @ [] # rest\<rparr>"
  have a: "anext h = (Yield m, ?h)" using Cons.prems(2) m by (simp add: anext_yield)
  have "async_for ?h = (q, StopAsyncIteration, ?h\<lparr>message_queue := rest\<rparr>)"
    by (rule Cons.IH[OF q]) simp
  then show ?case by (subst async_for.simps) (simp add: a)
qed

lemma conn_step_message:
  assumes "[] \<notin> set (message_queue (c_handler c))"
  shows "[] \<notin> set (message_queue (c_handler (conn_step c (Message m chg)))) \<and>
         relayed (conn_step c (Message m chg))
           @ message_queue (c_handler (conn_step c (Message m chg)))
           = relayed c @ message_queue (c_handler c) @ accepted w h [Message m chg]"
proof -
  obtain e w' h' where om: "on_message (c_world c) (c_handler c) m chg = (e, w', h')"
    by (cases "on_message (c_world c) (c_handler c) m chg") auto
  have ind: "fst (on_message w h m chg) = e"
    using on_message_raises_indep[of w h m chg "c_world c" "c_handler c"] om by simp
  have st: "conn_step c (Message m chg) = c\<lparr>c_world := w', c_handler := h'\<rparr>"
    using om by simp
  note q = on_message_queue[OF om]
  show ?thesis
  proof (cases e)
    case None
    with q have "m \<noteq> []" and "h' = (c_handler c)\<lparr>message_queue := message_queue (c_handler c) @ [m]\<rparr>"
      by auto
    with assms ind None show ?thesis unfolding st by simp
  next
    case (Some x)
    with q have "h' = c_handler c" by auto
    with assms ind Some show ?thesis unfolding st by simp
  qed
qed

lemma conn_step_next:
  assumes "[] \<notin> set (message_queue (c_handler c))"
  shows "[] \<notin> set (message_queue (c_handler (conn_step c Next))) \<and>
         relayed (conn_step c Next) @ message_queue (c_handler (conn_step c Next))
           = relayed c @ message_queue (c_handler c)"
proof (cases "message_queue (c_handler c)")
  case Nil
  then show ?thesis by (simp add: anext_empty)
next
  case (Cons m rest)
  with assms have "m \<noteq> []" by auto
  with Cons assms show ?thesis by (simp add: anext_yield)
qed

lemma accepted_append: "accepted w h (xs @ ys) = accepted w h xs @ accepted w h ys"
  by (induction w h xs rule: accepted.induct) auto

lemma run_inv:
  "[] \<notin> set (message_queue (c_handler c)) \<Longrightarrow>
     [] \<notin> set (message_queue (c_handler (foldl conn_step c evs))) \<and>
     relayed (foldl conn_step c evs) @ message_queue (c_handler (foldl conn_step c evs))
       = relayed c @ message_queue (c_handler c) @ accepted w h evs"
proof (induction evs arbitrary: c)
  case Nil
  then show ?case by simp
next
  case (Cons ev evs)
  show ?case
  proof (cases ev)
    case (Message m chg)
    note st = conn_step_message[OF Cons.prems, of m chg w h]
    from Cons.IH[OF conjunct1[OF st]] st Message show ?thesis by simp
  next
    case Next
    note st = conn_step_next[OF Cons.prems]
    from Cons.IH[OF conjunct1[OF st]] st Next show ?thesis by simp
  qed
qed

lemma on_close_queue:
  "message_queue (snd (snd (on_close w h))) = message_queue h @ [[]]"
  by (simp add: on_close_def Let_def split: option.splits room_variant.splits prod.splits)

text \<open>
  Claim C8. On one connection the messages are relayed in arrival order: whatever way the
  frames delivered to \<^verbatim>\<open>on_message\<close> and the calls of \<^verbatim>\<open>__anext__\<close> interleave, once
  \<^verbatim>\<open>on_close\<close> has run and the relay loop has drained the queue, the messages the loop was
  given are exactly the frames that \<^verbatim>\<open>on_message\<close> accepted, in the order they arrived,
  and the loop ends with \<^verbatim>\<open>StopAsyncIteration\<close>.
\<close>

theorem relay_fifo:
  assumes "message_queue h = []"
    and "c = foldl conn_step \<lparr>c_world = w, c_handler = h, relayed = []\<rparr> evs"
    and "on_close (c_world c) (c_handler c) = (e, w', h')"
    and "async_for h' = (ms, r, h'')"
  shows "relayed c @ ms = accepted w h evs \<and> r = StopAsyncIteration"
proof -
  let ?c0 = "\<lparr>c_world = w, c_handler = h, relayed = []\<rparr>"
  have inv: "[] \<notin> set (message_queue (c_handler c)) \<and>
     relayed c @ message_queue (c_handler c) = accepted w h evs"
    using run_inv[of ?c0 evs w h] assms(1,2) by simp
  have q: "message_queue h' = message_queue (c_handler c) @ [] # []"
    using on_close_queue[of "c_world c" "c_handler c"] assms(3) by simp
  from async_for_sentinel[OF conjunct1[OF inv] q] assms(4) inv show ?thesis by simp
qed

lemma accepted_example:
  "accepted doc_world handler0 example_events = [[0, 5], [1, 2], [0, 6]]"
  by (simp add: example_events_def on_message_def AWARENESS_def)

theorem relay_fifo_witness:
  "message_queue handler0 = [] \<and>
   (let c = foldl conn_step \<lparr>c_world = doc_world, c_handler = handler0, relayed = []\<rparr>
              example_events;
        h' = snd (snd (on_close (c_world c) (c_handler c)))
    in relayed c @ fst (async_for h') = [[0, 5], [1, 2], [0, 6]] \<and>
       fst (snd (async_for h')) = StopAsyncIteration)"
proof -
  define c where "c = foldl conn_step \<lparr>c_world = doc_world, c_handler = handler0, relayed = []\<rparr>
              example_events"
  have q: "message_queue handler0 = []" by (simp add: handler0_def)
  obtain e w' h' where oc: "on_close (c_world c) (c_handler c) = (e, w', h')"
    by (cases "on_close (c_world c) (c_handler c)") auto
  obtain ms r h'' where af: "async_for h' = (ms, r, h'')"
    by (cases "async_for h'") auto
  from relay_fifo[OF q c_def oc af] accepted_example q oc af show ?thesis
    unfolding c_def[symmetric] by (simp add: Let_def)
qed

section \<open>The connected-users directory\<close>











section \<open>The end-of-stream sentinel\<close>

text \<open>
  Claim C9, as stated, fails: a zero-length frame sent by the client never reaches the queue.
  \<^verbatim>\<open>on_message\<close> reads \<^verbatim>\<open>message[0]\<close> first, which raises \<^verbatim>\<open>IndexError\<close> on an empty
  frame; the queue stays as it was, whereas \<^verbatim>\<open>on_close\<close> does enqueue the empty entry.
\<close>

theorem empty_frame_is_not_enqueued:
  "on_message doc_world handler0 [] (Inl DecodeError) = (Some IndexError, doc_world, handler0) \<and>
   message_queue (snd (snd (on_close doc_world handler0))) = [[]]"
proof -
  have "message_queue handler0 = []" by (simp add: handler0_def)
  then show ?thesis using on_close_queue[of doc_world handler0]
    by (simp add: on_message_nil)
qed

text \<open>
  Claim C9, amended. The end-of-stream sentinel is an empty queue entry: \<^verbatim>\<open>__anext__\<close>
  raises \<^verbatim>\<open>StopAsyncIteration\<close> on it and yields any other entry. Only \<^verbatim>\<open>on_close\<close> enqueues
  it: every frame that \<^verbatim>\<open>on_message\<close> enqueues is non-empty, and on a zero-length frame
  \<^verbatim>\<open>on_message\<close> raises \<^verbatim>\<open>IndexError\<close> and enqueues nothing.
\<close>

theorem sentinel_only_from_on_close:
  "(on_message w h message chg = (None, w', h') \<longrightarrow>
      message \<noteq> [] \<and> message_queue h' = message_queue h @ [message]) \<and>
   on_message w h [] chg = (Some IndexError, w, h) \<and>
   message_queue (snd (snd (on_close w h))) = message_queue h @ [[]] \<and>
   (message_queue h = [] # rest \<longrightarrow>
      anext h = (StopAsyncIteration, h\<lparr>message_queue := rest\<rparr>)) \<and>
   (message_queue h = message # rest \<longrightarrow> message \<noteq> [] \<longrightarrow>
      anext h = (Yield message, h\<lparr>message_queue := rest\<rparr>))"
proof (intro conjI impI)
  assume om: "on_message w h message chg = (None, w', h')"
  from on_message_queue[OF om] show "message \<noteq> []" by simp
  from on_message_queue[OF om] show "message_queue h' = message_queue h @ [message]" by simp
next
  show "on_message w h [] chg = (Some IndexError, w, h)" by (rule on_message_nil)
next
  show "message_queue (snd (snd (on_close w h))) = message_queue h @ [[]]"
    by (rule on_close_queue)
next
  assume "message_queue h = [] # rest"
  then show "anext h = (StopAsyncIteration, h\<lparr>message_queue := rest\<rparr>)"
    by (rule anext_sentinel)
next
  assume "message_queue h = message # rest" "message \<noteq> []"
  then show "anext h = (Yield message, h\<lparr>message_queue := rest\<rparr>)"
    by (rule anext_yield)
qed

theorem sentinel_only_from_on_close_witness:
  "on_message doc_world handler0 [0, 5] (Inl DecodeError)
     = (None, doc_world\<lparr>ypatch_nb := 1\<rparr>, handler0\<lparr>message_queue := [[0, 5]]\<rparr>) \<and>
   message_queue (handler0\<lparr>message_queue := [[0, 5]]\<rparr>) = message_queue handler0 @ [[0, 5]] \<and>
   anext (handler0\<lparr>message_queue := [[], [0, 5]]\<rparr>)
     = (StopAsyncIteration, handler0\<lparr>message_queue := [[0, 5]]\<rparr>) \<and>
   anext (handler0\<lparr>message_queue := [[0, 5], []]\<rparr>)
     = (Yield [0, 5], handler0\<lparr>message_queue := [[]]\<rparr>)"
proof -
  let ?w1 = "doc_world\<lparr>ypatch_nb := 1\<rparr>"
  let ?h1 = "handler0\<lparr>message_queue := [[0, 5]]\<rparr>"
  let ?h2 = "handler0\<lparr>message_queue := [[], [0, 5]]\<rparr>"
  let ?h3 = "handler0\<lparr>message_queue := [[0, 5], []]\<rparr>"
  have ne: "(0::byte) \<noteq> AWARENESS" by (simp add: AWARENESS_def)
  have y: "ypatch_nb doc_world + 1 = 1" by (simp add: doc_world_def world0_def)
  have q: "message_queue handler0 @ [[0, 5]] = [[0, 5]]" by (simp add: handler0_def)
  have om: "on_message doc_world handler0 [0, 5] (Inl DecodeError) = (None, ?w1, ?h1)"
    unfolding on_message_other[OF ne] y q ..
  have a: "message_queue ?h1 = message_queue handler0 @ [[0, 5]]"
    using sentinel_only_from_on_close[of doc_world handler0 "[0, 5]" "Inl DecodeError"
        ?w1 ?h1 "[]"] om by blast
  have q2: "message_queue ?h2 = [] # [[0, 5]]" by simp
  have b: "anext ?h2 = (StopAsyncIteration, ?h2\<lparr>message_queue := [[0, 5]]\<rparr>)"
    using sentinel_only_from_on_close[of doc_world ?h2 "[]" "Inl DecodeError"
        doc_world ?h2 "[[0, 5]]"] q2 by blast
  have q3: "message_queue ?h3 = [0, 5] # [[]]" by simp
  have n3: "[0, 5 :: byte] \<noteq> []" by simp
  have c: "anext ?h3 = (Yield [0, 5], ?h3\<lparr>message_queue := [[]]\<rparr>)"
    using sentinel_only_from_on_close[of doc_world ?h3 "[0, 5]" "Inl DecodeError"
        doc_world ?h3 "[[]]"] q3 n3 by blast
  from om a b c show ?thesis by simp
qed

section \<open>Opening and closing connections\<close>

lemma lookup_room_upd [simp]:
  "lookup_room (w\<lparr>tasks := ts\<rparr>) r = lookup_room w r"
  "lookup_room (w\<lparr>background_tasks := bs\<rparr>) r = lookup_room w r"
  "lookup_room (w\<lparr>event_log := evs\<rparr>) r = lookup_room w r"
  "lookup_room (w\<lparr>file_loaders := fl\<rparr>) r = lookup_room w r"
  "lookup_room (w\<lparr>rooms := rs\<rparr>) r = lookup_room w r"
  by (simp_all add: lookup_room_def)

text \<open>
  Claim C10. For a connection to a Transient Room, \<^verbatim>\<open>open\<close> only starts the serve task:
  whatever session the request supplies (also none), the session is not compared, the
  connection is not closed, no task is cancelled, no room is initialised and no event is
  emitted.
\<close>

theorem open_transient_room:
  assumes "h_room h = Some r" and "lookup_room w r = Some room"
    and "variant room = TransientRoom"
  shows "open_conn w (h\<lparr>query_sessionId := sid\<rparr>) loaded =
           (None,
            w\<lparr>tasks := tasks w @ [\<lparr>t_body = Serve (hid h), t_status = Pending\<rparr>],
              background_tasks := background_tasks w @ [length (tasks w)]\<rparr>,
            h\<lparr>query_sessionId := sid\<rparr>)"
  using assms by (simp add: open_conn_def create_task_def Let_def)

theorem open_transient_room_witness:
  "open_conn awareness_world awareness_handler ''doc'' =
     (None,
      awareness_world\<lparr>tasks := [\<lparr>t_body = Serve 2, t_status = Pending\<rparr>],
                       background_tasks := [0]\<rparr>,
      awareness_handler) \<and>
   open_conn awareness_world (awareness_handler\<lparr>query_sessionId := Some ''s0''\<rparr>) ''doc'' =
     (None,
      awareness_world\<lparr>tasks := [\<lparr>t_body = Serve 2, t_status = Pending\<rparr>],
                       background_tasks := [0]\<rparr>,
      awareness_handler\<lparr>query_sessionId := Some ''s0''\<rparr>)"
proof -
  let ?room = "\<lparr>room_id = ''JupyterLab:globalAwareness'', clients = [], variant = TransientRoom\<rparr>"
  have r: "h_room awareness_handler = Some 0" by (simp add: awareness_handler_def)
  have l: "lookup_room awareness_world 0 = Some ?room"
    by (simp add: lookup_room_def awareness_world_def)
  have v: "variant ?room = TransientRoom" by simp
  have t: "tasks awareness_world = []" "background_tasks awareness_world = []"
    by (simp_all add: awareness_world_def world0_def)
  have i: "hid awareness_handler = 2" by (simp add: awareness_handler_def)
  have n: "awareness_handler\<lparr>query_sessionId := None\<rparr> = awareness_handler"
    by (simp add: awareness_handler_def)
  from open_transient_room[OF r l v, of None "''doc''"]
       open_transient_room[OF r l v, of "Some ''s0''" "''doc''"]
  show ?thesis unfolding t i n by simp
qed

lemma lookup_room_cancel [simp]: "lookup_room (cancel w t) r = lookup_room w r"
  by (simp add: cancel_def lookup_room_def)

lemma room_initialize_ready:
  "lookup_room w r = Some room \<Longrightarrow> variant room = DocumentRoom d \<Longrightarrow> ready d \<Longrightarrow>
     room_initialize w r loaded = w"
  by (simp add: room_initialize_def)

lemma emit_only_logs:
  "emit w h level action msg = (e, w') \<Longrightarrow> w' = w\<lparr>event_log := event_log w'\<rparr>"
  by (auto simp: emit_def Let_def split: sum.splits prod.splits)

lemma open_conn_reconnect:
  assumes "h_room h = Some r" and "lookup_room w r = Some room"
    and "variant room = DocumentRoom d" and "cleaner d = Some t" and "ready d"
    and "open_conn w h loaded = (e, w', h')"
  shows "w' = (cancel (w\<lparr>tasks := tasks w @ [\<lparr>t_body = Serve (hid h), t_status = Pending\<rparr>],
                          background_tasks := background_tasks w @ [length (tasks w)]\<rparr>) t)
               \<lparr>event_log := event_log w'\<rparr>"
proof -
  let ?w1 = "w\<lparr>tasks := tasks w @ [\<lparr>t_body = Serve (hid h), t_status = Pending\<rparr>],
               background_tasks := background_tasks w @ [length (tasks w)]\<rparr>"
  have l: "lookup_room (cancel ?w1 t) r = Some room" using assms(2) by simp
  have ri: "room_initialize (cancel ?w1 t) r loaded = cancel ?w1 t"
    by (rule room_initialize_ready[OF l assms(3,5)])
  obtain h1 where
    oc: "open_conn w h loaded =
           (case emit (cancel ?w1 t) h1 INFO (Some ''initialize'') (Some ''New client connected.'')
            of (e, w4) \<Rightarrow> (e, w4, h1))"
    using assms(1-4) ri by (simp add: open_conn_def create_task_def Let_def)
  obtain e4 w4 where
    em: "emit (cancel ?w1 t) h1 INFO (Some ''initialize'') (Some ''New client connected.'')
           = (e4, w4)"
    by (cases "emit (cancel ?w1 t) h1 INFO (Some ''initialize'') (Some ''New client connected.'')")
       auto
  from oc em assms(6) have "w' = w4" by simp
  with emit_only_logs[OF em] show ?thesis by simp
qed

lemma on_close_document:
  assumes "h_room h = Some r" and "lookup_room w r = Some room"
    and "variant room = DocumentRoom d"
  shows "on_close w h =
     (if clients room = [hid h]
      then (None,
            update_room (w\<lparr>tasks := tasks w @ [\<lparr>t_body = CleanRoom (hid h), t_status = Pending\<rparr>]\<rparr>) r
              (room\<lparr>variant := DocumentRoom (d\<lparr>cleaner := Some (length (tasks w))\<rparr>)\<rparr>),
            h\<lparr>message_queue := message_queue h @ [[]]\<rparr>)
      else (None, w, h\<lparr>message_queue := message_queue h @ [[]]\<rparr>))"
  using assms by (simp add: on_close_def create_task_def Let_def)

lemma cancelled_cleaner_runs_nothing:
  "t < length (tasks w) \<Longrightarrow> t_status (tasks w ! t) \<noteq> Pending \<Longrightarrow>
     run_cleaner w hc t = (None, w, hc)"
  by (simp add: run_cleaner_def)

text \<open>
  Claim C3. For a connection whose room is a Document Room, \<^verbatim>\<open>on_close\<close> schedules the
  cleanup task exactly when the client list of the room is just this connection; otherwise it
  changes nothing but the queue. When a connection attaches to a live room whose cleanup task
  is still pending, \<^verbatim>\<open>open\<close> cancels the task: the task is cancelled, the room object
  (its document included) and the registry are as before, and the cancelled task, when its
  timer fires, does nothing.
\<close>

theorem cleanup_scheduled_on_last_close_cancelled_on_attach:
  assumes "h_room h = Some r" and "lookup_room w r = Some room"
    and "variant room = DocumentRoom d"
  shows "(clients room = [hid h] \<longrightarrow>
            on_close w h =
              (None,
               update_room
                 (w\<lparr>tasks := tasks w @ [\<lparr>t_body = CleanRoom (hid h), t_status = Pending\<rparr>]\<rparr>) r
                 (room\<lparr>variant := DocumentRoom (d\<lparr>cleaner := Some (length (tasks w))\<rparr>)\<rparr>),
               h\<lparr>message_queue := message_queue h @ [[]]\<rparr>)) \<and>
         (clients room \<noteq> [hid h] \<longrightarrow>
            on_close w h = (None, w, h\<lparr>message_queue := message_queue h @ [[]]\<rparr>)) \<and>
         (cleaner d = Some t \<longrightarrow> t < length (tasks w) \<longrightarrow> t_status (tasks w ! t) = Pending \<longrightarrow>
          ready d \<longrightarrow>
            (\<forall>e w' h'. open_conn w h loaded = (e, w', h') \<longrightarrow>
               t_status (tasks w' ! t) = Cancelled \<and> lookup_room w' r = Some room \<and>
               rooms w' = rooms w \<and> (\<forall>hc. run_cleaner w' hc t = (None, w', hc))))"
proof (intro conjI impI allI)
  assume "clients room = [hid h]"
  then show "on_close w h =
              (None,
               update_room
                 (w\<lparr>tasks := tasks w @ [\<lparr>t_body = CleanRoom (hid h), t_status = Pending\<rparr>]\<rparr>) r
                 (room\<lparr>variant := DocumentRoom (d\<lparr>cleaner := Some (length (tasks w))\<rparr>)\<rparr>),
               h\<lparr>message_queue := message_queue h @ [[]]\<rparr>)"
    by (simp add: on_close_document[OF assms])
next
  assume "clients room \<noteq> [hid h]"
  then show "on_close w h = (None, w, h\<lparr>message_queue := message_queue h @ [[]]\<rparr>)"
    by (simp add: on_close_document[OF assms])
next
  fix e w' h' hc
  assume c: "cleaner d = Some t" and t: "t < length (tasks w)"
    and p: "t_status (tasks w ! t) = Pending" and rd: "ready d"
    and oc: "open_conn w h loaded = (e, w', h')"
  let ?w1 = "w\<lparr>tasks := tasks w @ [\<lparr>t_body = Serve (hid h), t_status = Pending\<rparr>],
               background_tasks := background_tasks w @ [length (tasks w)]\<rparr>"
  note w' = open_conn_reconnect[OF assms c rd oc]
  have ts: "tasks w' = (tasks w @ [\<lparr>t_body = Serve (hid h), t_status = Pending\<rparr>])
                         [t := (tasks w ! t)\<lparr>t_status := Cancelled\<rparr>]"
    using t p by (subst w') (simp add: cancel_def nth_append)
  from ts t show st: "t_status (tasks w' ! t) = Cancelled" by simp
  show "lookup_room w' r = Some room" by (subst w') (simp add: assms(2))
  show "rooms w' = rooms w" by (subst w') (simp add: cancel_def)
  from ts t have "t < length (tasks w')" by simp
  with st show "run_cleaner w' hc t = (None, w', hc)"
    by (simp add: cancelled_cleaner_runs_nothing)
qed

lemma lookup_doc_world: "lookup_room doc_world 0 = Some doc_room"
  by (simp add: lookup_room_def doc_world_def)

lemma lookup_closing_world: "lookup_room closing_world 0 = Some closing_room"
  by (simp add: lookup_room_def closing_world_def)

theorem cleanup_scheduled_on_last_close_cancelled_on_attach_witness:
  "on_close doc_world handler0 = (None, closing_world, handler0\<lparr>message_queue := [[]]\<rparr>) \<and>
   on_close closing_world stale_handler
     = (None, closing_world, stale_handler\<lparr>message_queue := [[]]\<rparr>) \<and>
   t_status (tasks (fst (snd (open_conn closing_world stale_handler ''other''))) ! 0)
     = Cancelled \<and>
   lookup_room (fst (snd (open_conn closing_world stale_handler ''other''))) 0
     = Some closing_room \<and>
   rooms (fst (snd (open_conn closing_world stale_handler ''other''))) = [(doc_id, 0)] \<and>
   run_cleaner (fst (snd (open_conn closing_world stale_handler ''other''))) handler0 0
     = (None, fst (snd (open_conn closing_world stale_handler ''other'')), handler0)"
proof -
  let ?d = "\<lparr>file_format = ''json'', file_type = ''notebook'', room_file = doc_id,
             room_ystore = \<lparr>ys_path = ''.notebook:nb.ipynb.y'', ys_open = True\<rparr>,
             save_delay = Some 1, cleaner = None, ready = True, ydoc = ''cells''\<rparr>"
  have r0: "h_room handler0 = Some 0" by (simp add: handler0_def)
  have v0: "variant doc_room = DocumentRoom ?d" by (simp add: doc_room_def)
  have c0: "clients doc_room = [hid handler0]" by (simp add: doc_room_def handler0_def)
  have r1: "h_room stale_handler = Some 0" by (simp add: stale_handler_def)
  have v1: "variant closing_room = DocumentRoom (?d\<lparr>cleaner := Some 0\<rparr>)"
    by (simp add: closing_room_def)
  have c1: "clients closing_room \<noteq> [hid stale_handler]"
    by (simp add: closing_room_def stale_handler_def)
  have p1: "cleaner (?d\<lparr>cleaner := Some 0\<rparr>) = Some 0" "0 < length (tasks closing_world)"
    "t_status (tasks closing_world ! 0) = Pending" "ready (?d\<lparr>cleaner := Some 0\<rparr>)"
    by (simp_all add: closing_world_def)
  note A = cleanup_scheduled_on_last_close_cancelled_on_attach[OF r0 lookup_doc_world v0,
      of 0 "''other''"]
  note B = cleanup_scheduled_on_last_close_cancelled_on_attach[OF r1 lookup_closing_world v1,
      of 0 "''other''"]
  have a: "on_close doc_world handler0 = (None, closing_world, handler0\<lparr>message_queue := [[]]\<rparr>)"
    using A c0
    by (simp add: doc_world_def world0_def handler0_def doc_room_def closing_world_def
        closing_room_def update_room_def)
  have b: "on_close closing_world stale_handler
     = (None, closing_world, stale_handler\<lparr>message_queue := [[]]\<rparr>)"
    using B c1 by (simp add: stale_handler_def)
  have c: "\<forall>e w' h'. open_conn closing_world stale_handler ''other'' = (e, w', h') \<longrightarrow>
      t_status (tasks w' ! 0) = Cancelled \<and> lookup_room w' 0 = Some closing_room \<and>
      rooms w' = [(doc_id, 0)] \<and> run_cleaner w' handler0 0 = (None, w', handler0)"
    using B p1 by (simp add: closing_world_def doc_world_def world0_def)
  obtain e w' h' where oc: "open_conn closing_world stale_handler ''other'' = (e, w', h')"
    by (cases "open_conn closing_world stale_handler ''other''") auto
  from c oc have "t_status (tasks w' ! 0) = Cancelled \<and> lookup_room w' 0 = Some closing_room \<and>
      rooms w' = [(doc_id, 0)] \<and> run_cleaner w' handler0 0 = (None, w', handler0)" by blast
  with a b oc show ?thesis by simp
qed

section \<open>Stale sessions\<close>

lemma last_segment_room_url: "last_segment room_url = doc_id"
  by (simp add: last_segment_def room_url_def doc_id_def)

lemma decode_doc_id: "decode_file_path doc_id = Inr (''json'', ''notebook'', ''i'')"
  by (simp add: decode_file_path_def doc_id_def)

lemma get_path_fim0: "get_path fim0 ''i'' = Some ''nb.ipynb''"
  by (simp add: get_path_def fim0_def)

lemma count_doc_id: "count_list doc_id (CHR '':'') = 2"
  by (simp add: doc_id_def)

lemma updates_file_path_nb:
  "updates_file_path ''notebook'' ''nb.ipynb'' = ''.notebook:nb.ipynb.y''"
  by (simp add: updates_file_path_def path_parts_def path_root_def)


lemma open_first_stale_connection:
  "open_conn fresh_world stale_handler ''cells'' =
     (None,
      fresh_world
        \<lparr>heap := [doc_room\<lparr>clients := []\<rparr>],
         file_loaders := [(doc_id, \<lparr>ld_file_id = ''i'', number_of_subscriptions = 1\<rparr>)],
         tasks := [\<lparr>t_body = Serve 1, t_status = Pending\<rparr>],
         background_tasks := [0],
         event_log := [\<lparr>ev_level = INFO, ev_room = doc_id, ev_path = Some ''nb.ipynb'',
                        ev_action = Some ''initialize'',
                        ev_msg = Some ''New client connected.''\<rparr>]\<rparr>,
      stale_handler\<lparr>closed := Some (1003, ''Document session s0 expired'')\<rparr>)"
  by (simp add: open_conn_def create_task_def Let_def stale_handler_def
      fresh_room_def fresh_world_def doc_room_def world0_def update_room_def subscribe_def
      room_initialize_def lookup_room_def emit_def decode_doc_id get_path_fim0 truthy_def
      close_def)

text \<open>
  Claim C2, on the code. A connection to a Document Room with a session other than
  \<^verbatim>\<open>SERVER_SESSION\<close> is closed with code 1003, but \<^verbatim>\<open>open\<close> does not return there. On a
  first connection it goes on to initialise the room (the document is loaded and the loader
  subscribed) and emits the event of a new client; its serve task, created before the
  session was compared, then registers the connection among the clients of the room. On a
  room waiting for its cleanup it cancels the cleaner.
\<close>

theorem stale_session_is_closed_but_still_served:
  "open_conn fresh_world stale_handler ''cells'' =
     (None,
      fresh_world
        \<lparr>heap := [doc_room\<lparr>clients := []\<rparr>],
         file_loaders := [(doc_id, \<lparr>ld_file_id = ''i'', number_of_subscriptions = 1\<rparr>)],
         tasks := [\<lparr>t_body = Serve 1, t_status = Pending\<rparr>],
         background_tasks := [0],
         event_log := [\<lparr>ev_level = INFO, ev_room = doc_id, ev_path = Some ''nb.ipynb'',
                        ev_action = Some ''initialize'',
                        ev_msg = Some ''New client connected.''\<rparr>]\<rparr>,
      stale_handler\<lparr>closed := Some (1003, ''Document session s0 expired'')\<rparr>) \<and>
   clients (heap (serve_attach (fst (snd (open_conn fresh_world stale_handler ''cells'')))
                    stale_handler 0) ! 0) = [1] \<and>
   open_conn closing_world stale_handler ''cells'' =
     (None,
      closing_world
        \<lparr>tasks := [\<lparr>t_body = CleanRoom 0, t_status = Cancelled\<rparr>,
                   \<lparr>t_body = Serve 1, t_status = Pending\<rparr>],
         background_tasks := [1],
         event_log := [\<lparr>ev_level = INFO, ev_room = doc_id, ev_path = Some ''nb.ipynb'',
                        ev_action = Some ''initialize'',
                        ev_msg = Some ''New client connected.''\<rparr>]\<rparr>,
      stale_handler\<lparr>closed := Some (1003, ''Document session s0 expired'')\<rparr>)"
proof -
  have c: "open_conn closing_world stale_handler ''cells'' =
     (None,
      closing_world
        \<lparr>tasks := [\<lparr>t_body = CleanRoom 0, t_status = Cancelled\<rparr>,
                   \<lparr>t_body = Serve 1, t_status = Pending\<rparr>],
         background_tasks := [1],
         event_log := [\<lparr>ev_level = INFO, ev_room = doc_id, ev_path = Some ''nb.ipynb'',
                        ev_action = Some ''initialize'',
                        ev_msg = Some ''New client connected.''\<rparr>]\<rparr>,
      stale_handler\<lparr>closed := Some (1003, ''Document session s0 expired'')\<rparr>)"
    by (simp add: open_conn_def create_task_def Let_def stale_handler_def lookup_closing_world
      closing_room_def cancel_def closing_world_def doc_world_def world0_def
      room_initialize_def lookup_room_def emit_def decode_doc_id get_path_fim0 truthy_def
      close_def)
  have a: "clients (heap (serve_attach (fst (snd (open_conn fresh_world stale_handler ''cells'')))
                    stale_handler 0) ! 0) = [1]"
    unfolding open_first_stale_connection
    by (simp add: serve_attach_def get_room_def fresh_world_def
        world0_def lookup_room_def update_room_def doc_room_def stale_handler_def)
  from open_first_stale_connection a c show ?thesis by simp
qed

section \<open>Creating rooms\<close>

lemma split_colon_Some: "split_colon s = Some (a, b) \<Longrightarrow> s = a @ CHR '':'' # b"
  by (induction s arbitrary: a) (auto split: if_splits option.splits)

lemma decode_file_path_count:
  assumes "decode_file_path rid = Inr (ff, ft, fid)"
  shows "2 \<le> count_list rid (CHR '':'')"
proof -
  from assms obtain rest where a: "split_colon rid = Some (ff, rest)"
    and b: "split_colon rest = Some (ft, fid)"
    by (auto simp: decode_file_path_def split: option.splits)
  from split_colon_Some[OF a] split_colon_Some[OF b]
  have "rid = ff @ CHR '':'' # ft @ CHR '':'' # fid" by simp
  then show ?thesis by simp
qed









lemma loaders_for_file:
  "(k, l) \<in> set fl \<Longrightarrow> ld_file_id l = fid \<Longrightarrow> get_loaders_from_file_id fl fid \<noteq> []"
  by (force simp: get_loaders_from_file_id_def filter_empty_conv)

text \<open>
  Claim C7. When a handler creates the Document Room of an identity whose file is already
  served by a loader (registered under whatever key, so also under another room identity),
  \<^verbatim>\<open>initialize\<close> returns normally: the warning event is emitted, and the room is constructed
  and registered as usual.
\<close>

theorem conflicting_room_connects_with_warning:
  assumes "last_segment p = rid" and "\<not> room_exists w rid"
    and "decode_file_path rid = Inr (ff, ft, fid)"
    and "(k, l) \<in> set (file_loaders w)" and "ld_file_id l = fid"
    and "get_path (file_id_manager w) fid = Some path"
    and "initialize w n p sid cd sd = (e, w', h)"
  shows "e = None \<and> h_room h = Some (length (heap w)) \<and>
         get_room w' rid = Some (length (heap w)) \<and>
         lookup_room w' (length (heap w)) =
           Some \<lparr>room_id = rid, clients = [],
                 variant = DocumentRoom
                   \<lparr>file_format = ff, file_type = ft, room_file = rid,
                    room_ystore = \<lparr>ys_path = updates_file_path ft path, ys_open = True\<rparr>,
                    save_delay = sd, cleaner = None, ready = False, ydoc = []\<rparr>\<rparr> \<and>
         event_log w' = event_log w @
           [\<lparr>ev_level = WARNING, ev_room = rid, ev_path = Some path, ev_action = None,
             ev_msg = Some conflict_msg\<rparr>]"
proof -
  note c = decode_file_path_count[OF assms(3)]
  note g = loaders_for_file[OF assms(4,5)]
  have m: "conflict_msg \<noteq> []" by (simp add: conflict_msg_def)
  from assms(2) have none: "map_of (rooms w) rid = None" by (simp add: room_exists_def)
  show ?thesis
    using assms(7) c g m none assms(2,3,6)
    unfolding initialize_def assms(1) Let_def
    by (auto simp: emit_def loaders_getitem_def new_room_def add_room_def room_exists_def
        get_room_def lookup_room_def truthy_def map_add_def Let_def split: option.splits)
qed

theorem conflicting_room_connects_with_warning_witness:
  "fst (initialize conflict_world 1 room_url (Some ''s1'') (Some 60) (Some 1)) = None \<and>
   h_room (snd (snd (initialize conflict_world 1 room_url (Some ''s1'') (Some 60) (Some 1))))
     = Some 0 \<and>
   get_room (fst (snd (initialize conflict_world 1 room_url (Some ''s1'') (Some 60) (Some 1))))
     doc_id = Some 0 \<and>
   lookup_room (fst (snd (initialize conflict_world 1 room_url (Some ''s1'') (Some 60) (Some 1))))
     0 = Some fresh_room \<and>
   event_log (fst (snd (initialize conflict_world 1 room_url (Some ''s1'') (Some 60) (Some 1))))
     = [conflict_warning]"
proof -
  let ?x = "initialize conflict_world 1 room_url (Some ''s1'') (Some 60) (Some 1)"
  let ?l = "\<lparr>ld_file_id = ''i'', number_of_subscriptions = 1\<rparr>"
  have n: "\<not> room_exists conflict_world doc_id"
    by (simp add: room_exists_def conflict_world_def world0_def)
  have k: "(''text:file:i'', ?l) \<in> set (file_loaders conflict_world)"
    by (simp add: conflict_world_def)
  have f: "ld_file_id ?l = ''i''" by simp
  have g: "get_path (file_id_manager conflict_world) ''i'' = Some ''nb.ipynb''"
    by (simp add: conflict_world_def world0_def get_path_fim0)
  have x: "?x = (fst ?x, fst (snd ?x), snd (snd ?x))" by simp
  have hp: "heap conflict_world = []" "event_log conflict_world = []"
    by (simp_all add: conflict_world_def world0_def)
  from conflicting_room_connects_with_warning[OF last_segment_room_url n decode_doc_id k f g x]
  show ?thesis
    unfolding hp by (simp add: fresh_room_def conflict_warning_def updates_file_path_nb)
qed

section \<open>Cleaning a room\<close>

text \<open>
  The state \<open>lapsed_world\<close> is reached from the initial state by the first connection to
  the room: \<^verbatim>\<open>initialize\<close>, \<^verbatim>\<open>open\<close>, the first step of its serve task, \<^verbatim>\<open>on_close\<close>,
  and the end of its serve task.
\<close>

lemma initialize_handler0:
  "initialize world0 0 room_url (Some ''s1'') (Some 60) (Some 1) = (None, fresh_world, handler0)"
  by (simp add: initialize_def last_segment_room_url room_exists_def world0_def count_doc_id
      decode_doc_id get_loaders_from_file_id_def loaders_getitem_def get_path_fim0
      updates_file_path_nb new_room_def add_room_def fresh_world_def
      fresh_room_def handler0_def Let_def)

lemma open_handler0:
  "open_conn fresh_world handler0 ''cells'' =
     (None,
      doc_world\<lparr>heap := [doc_room\<lparr>clients := []\<rparr>], background_tasks := [0],
                event_log := [client_joined],
                tasks := [\<lparr>t_body = Serve 0, t_status = Pending\<rparr>]\<rparr>,
      handler0)"
  by (simp add: open_conn_def create_task_def Let_def handler0_def
      fresh_room_def fresh_world_def doc_room_def doc_world_def world0_def update_room_def
      subscribe_def room_initialize_def lookup_room_def emit_def decode_doc_id get_path_fim0
      truthy_def close_def client_joined_def)

lemma serve_handler0:
  "serve_attach (doc_world\<lparr>heap := [doc_room\<lparr>clients := []\<rparr>], background_tasks := [0],
                event_log := [client_joined],
                tasks := [\<lparr>t_body = Serve 0, t_status = Pending\<rparr>]\<rparr>) handler0 0
     = doc_world\<lparr>background_tasks := [0], event_log := [client_joined],
                 tasks := [\<lparr>t_body = Serve 0, t_status = Pending\<rparr>]\<rparr>"
  by (simp add: serve_attach_def get_room_def doc_world_def world0_def handler0_def
      lookup_room_def update_room_def doc_room_def)

lemma close_handler0:
  "on_close (doc_world\<lparr>background_tasks := [0], event_log := [client_joined],
                 tasks := [\<lparr>t_body = Serve 0, t_status = Pending\<rparr>]\<rparr>) handler0
     = (None, lapsed_world\<lparr>heap := [lapsed_room\<lparr>clients := [0]\<rparr>]\<rparr>, lapsed_handler)"
  by (simp add: on_close_def doc_world_def world0_def handler0_def doc_room_def
      lapsed_world_def lapsed_room_def lapsed_handler_def lookup_room_def update_room_def
      create_task_def Let_def)

lemma detach_handler0:
  "serve_detach (lapsed_world\<lparr>heap := [lapsed_room\<lparr>clients := [0]\<rparr>]\<rparr>) lapsed_handler
     = lapsed_world"
  by (simp add: serve_detach_def get_room_def lapsed_world_def doc_world_def world0_def
      lapsed_handler_def handler0_def lookup_room_def update_room_def lapsed_room_def)

lemma lapsed_world_reached:
  "\<exists>w1 w2 w3.
     initialize world0 0 room_url (Some ''s1'') (Some 60) (Some 1) = (None, w1, handler0) \<and>
     open_conn w1 handler0 ''cells'' = (None, w2, handler0) \<and>
     on_close (serve_attach w2 handler0 0) handler0 = (None, w3, lapsed_handler) \<and>
     serve_detach w3 lapsed_handler = lapsed_world"
  using initialize_handler0 open_handler0 serve_handler0 close_handler0 detach_handler0
  by metis

text \<open>
  Claim C4 does not hold of the code. In \<open>lapsed_world\<close> the grace period elapses with no
  client connected and the cleaner runs: the room is unregistered from the Room Registry, its
  loader subscription is released and \<^verbatim>\<open>Room deleted.\<close> is emitted, but then
  \<^verbatim>\<open>del self.files[self._room_id]\<close> raises \<^verbatim>\<open>AttributeError\<close>, so the loader, which has no
  subscriber left, stays in the Loader Registry and \<^verbatim>\<open>Loader deleted.\<close> is never emitted.
  With the cleanup delay disabled the cleaner returns at once and destroys nothing.
\<close>

theorem cleanup_fails_to_remove_loader:
  "run_cleaner lapsed_world lapsed_handler 1 =
     (Some AttributeError,
      lapsed_world
        \<lparr>rooms := [],
         file_loaders := [(doc_id, \<lparr>ld_file_id = ''i'', number_of_subscriptions = 0\<rparr>)],
         event_log := [client_joined, room_deleted],
         tasks := [\<lparr>t_body = Serve 0, t_status = Pending\<rparr>,
                   \<lparr>t_body = CleanRoom 0, t_status = Finished\<rparr>]\<rparr>,
      lapsed_handler\<lparr>h_room := None\<rparr>) \<and>
   clean_room lapsed_world (lapsed_handler\<lparr>cleanup_delay := None\<rparr>) =
     (None, lapsed_world, lapsed_handler\<lparr>cleanup_delay := None\<rparr>)"
  by (simp add: run_cleaner_def clean_room_def delete_room_def unsubscribe_def emit_def Let_def
      lapsed_world_def doc_world_def world0_def lapsed_handler_def handler0_def
      lookup_room_def lapsed_room_def loaders_getitem_def decode_doc_id
      get_path_fim0 truthy_def room_deleted_def client_joined_def)

section \<open>The session endpoint\<close>






end
